theory Spec2Isabelle
  imports Main "HOL-Library.Sublist"
begin

section \<open>The wallet session of \<^verbatim>\<open>src/contexts/Web3Context.tsx\<close>\<close>

text \<open>
  The React component \<^verbatim>\<open>Web3Provider\<close> keeps five pieces of state (provider, signer,
  account, chainId, isConnected) and offers three operations (connectWallet,
  disconnectWallet, switchToSepolia), two wallet event handlers (handleAccountsChanged,
  handleChainChanged) and a start-up probe (autoConnect).

  The embedding passes the state explicitly. What the code sends to the outside (toasts,
  console output, requests to the wallet) is appended to a trace, in the order the code
  issues it. What the wallet answers is an input of each call: a record with one answer
  per request, since no operation issues the same request twice.
\<close>

subsection \<open>Values\<close>

text \<open>
  A JavaScript number, as far as chain ids need it: \<^verbatim>\<open>NaN\<close> or an integer. Integers
  are exact here; a double rounds only beyond \<open>2^53\<close>, and rounding can neither produce
  nor change the value 11155111, the only number the code compares with.
\<close>

datatype jsnum = NaN | Num int

type_synonym handle = nat

text \<open>
  What a rejected promise carries (\<^verbatim>\<open>catch (switchError: any)\<close>): \<^verbatim>\<open>null\<close> or
  \<^verbatim>\<open>undefined\<close>, or an object whose \<^verbatim>\<open>code\<close> property is a number (\<open>Some\<close>) or
  is anything else, also missing (\<open>None\<close>).
\<close>

datatype thrown = Nullish | Obj "int option"

subsection \<open>Constants\<close>

definition SEPOLIA_CHAIN_ID :: int where
  "SEPOLIA_CHAIN_ID = 11155111"

definition SEPOLIA_RPC_URL :: string where
  "SEPOLIA_RPC_URL = ''https://eth-sepolia.g.alchemy.com/v2/d8cu_4ZQnwo5G_j-l7xXLA0IgBwzrhp9''"

subsection \<open>\<^verbatim>\<open>Number.prototype.toString(16)\<close> and \<^verbatim>\<open>parseInt(s, 16)\<close>\<close>

definition hexChar :: "nat \<Rightarrow> char" where
  "hexChar d = ''0123456789abcdef'' ! d"

fun toString16 :: "nat \<Rightarrow> string" where
  "toString16 n = (if n < 16 then [hexChar n] else toString16 (n div 16) @ [hexChar (n mod 16)])"

declare toString16.simps [simp del]

definition isStrWhiteSpaceChar :: "char \<Rightarrow> bool" where
  "isStrWhiteSpaceChar c =
     (let n = (of_char c :: nat) in n = 9 \<or> n = 10 \<or> n = 11 \<or> n = 12 \<or> n = 13 \<or> n = 32 \<or> n = 160)"

definition hexDigit :: "char \<Rightarrow> nat option" where
  "hexDigit c =
     (let n = (of_char c :: nat) in
      if 48 \<le> n \<and> n \<le> 57 then Some (n - 48)
      else if 97 \<le> n \<and> n \<le> 102 then Some (n - 87)
      else if 65 \<le> n \<and> n \<le> 70 then Some (n - 55)
      else None)"

text \<open>The digits of the longest prefix that is made of radix-16 digits.\<close>

fun digits16 :: "string \<Rightarrow> nat list" where
  "digits16 [] = []"
| "digits16 (c # cs) = (case hexDigit c of None \<Rightarrow> [] | Some d \<Rightarrow> d # digits16 cs)"

definition mathInt16 :: "nat list \<Rightarrow> nat" where
  "mathInt16 ds = foldl (\<lambda>acc d. 16 * acc + d) 0 ds"

text \<open>
  \<^verbatim>\<open>parseInt(inputString, 16)\<close> as ECMAScript defines it: leading white space is
  dropped, then a sign, then \<^verbatim>\<open>0x\<close> or \<^verbatim>\<open>0X\<close>; the longest run of hexadecimal
  digits that follows is the number, and \<^verbatim>\<open>NaN\<close> results when that run is empty.
\<close>

definition parseInt16 :: "string \<Rightarrow> jsnum" where
  "parseInt16 inputString =
     (let S = dropWhile isStrWhiteSpaceChar inputString;
          sign = (if take 1 S = ''-'' then - 1 else 1);
          S1 = (if take 1 S = ''+'' \<or> take 1 S = ''-'' then drop 1 S else S);
          S2 = (if take 2 S1 = ''0x'' \<or> take 2 S1 = ''0X'' then drop 2 S1 else S1);
          Z = digits16 S2
      in if Z = [] then NaN else Num (sign * int (mathInt16 Z)))"

subsection \<open>The chain descriptor of \<^verbatim>\<open>wallet_addEthereumChain\<close>\<close>

record currency =
  cur_name :: string
  cur_symbol :: string
  cur_decimals :: nat

record chain_descriptor =
  d_chainId :: string
  d_chainName :: string
  d_nativeCurrency :: currency
  d_rpcUrls :: "string list"
  d_blockExplorerUrls :: "string list"

definition sepolia_hex :: string where
  "sepolia_hex = ''0x'' @ toString16 (nat SEPOLIA_CHAIN_ID)"

definition sepolia_descriptor :: chain_descriptor where
  "sepolia_descriptor =
     \<lparr>d_chainId = sepolia_hex,
      d_chainName = ''Sepolia Test Network'',
      d_nativeCurrency = \<lparr>cur_name = ''Sepolia Ether'', cur_symbol = ''ETH'', cur_decimals = 18\<rparr>,
      d_rpcUrls = [SEPOLIA_RPC_URL],
      d_blockExplorerUrls = [''https://sepolia.etherscan.io/'']\<rparr>"

subsection \<open>State, trace and wallet answers\<close>

record session =
  provider :: "handle option"
  signer :: "handle option"
  account :: "string option"
  chainId :: "jsnum option"
  isConnected :: bool

datatype request =
    Eth_requestAccounts
  | GetSigner
  | GetNetwork
  | Wallet_switchEthereumChain string
  | Wallet_addEthereumChain chain_descriptor
  | Eth_accounts

datatype event =
    Toast_error string
  | Toast_success string
  | Toast_loading string
  | Console_error string
  | Request request

record world =
  session :: session
  trace :: "event list"

text \<open>
  The wallet's side of one call. \<open>ethereum\<close> is \<^verbatim>\<open>typeof window.ethereum !== 'undefined'\<close>,
  \<open>newProvider\<close> the object \<^verbatim>\<open>new BrowserProvider(window.ethereum)\<close> creates; each other
  field is what the promise of that request settles with (\<open>Inl\<close>: it rejects).
  \<open>getNetwork\<close> gives \<^verbatim>\<open>Number(network.chainId)\<close>.
\<close>

record adapter =
  ethereum :: bool
  newProvider :: handle
  eth_requestAccounts :: "thrown + string list"
  getSigner :: "thrown + handle"
  getNetwork :: "thrown + int"
  wallet_switchEthereumChain :: "thrown + unit"
  wallet_addEthereumChain :: "thrown + unit"
  eth_accounts :: "thrown + string list"

definition initial_session :: session where
  "initial_session = \<lparr>provider = None, signer = None, account = None, chainId = None, isConnected = False\<rparr>"

definition initial_world :: world where
  "initial_world = \<lparr>session = initial_session, trace = []\<rparr>"

definition emit :: "event \<Rightarrow> world \<Rightarrow> world" where
  "emit e w = w\<lparr>trace := trace w @ [e]\<rparr>"

definition setProvider :: "handle option \<Rightarrow> world \<Rightarrow> world" where
  "setProvider v w = w\<lparr>session := (session w)\<lparr>provider := v\<rparr>\<rparr>"

definition setSigner :: "handle option \<Rightarrow> world \<Rightarrow> world" where
  "setSigner v w = w\<lparr>session := (session w)\<lparr>signer := v\<rparr>\<rparr>"

definition setAccount :: "string option \<Rightarrow> world \<Rightarrow> world" where
  "setAccount v w = w\<lparr>session := (session w)\<lparr>account := v\<rparr>\<rparr>"

definition setChainId :: "jsnum option \<Rightarrow> world \<Rightarrow> world" where
  "setChainId v w = w\<lparr>session := (session w)\<lparr>chainId := v\<rparr>\<rparr>"

definition setIsConnected :: "bool \<Rightarrow> world \<Rightarrow> world" where
  "setIsConnected v w = w\<lparr>session := (session w)\<lparr>isConnected := v\<rparr>\<rparr>"

subsection \<open>The operations\<close>

text \<open>
  \<^verbatim>\<open>switchToSepolia\<close> (lines 119 to 151). The result says whether the call itself
  throws: reading \<^verbatim>\<open>switchError.code\<close> of a nullish value is a TypeError inside the
  catch block, which nothing in the function catches. When \<^verbatim>\<open>window.ethereum\<close> is
  undefined the TypeError of \<^verbatim>\<open>window.ethereum.request\<close> is raised inside the
  \<^verbatim>\<open>try\<close>, so it is the \<^verbatim>\<open>switchError\<close>, an object without a numeric code.
\<close>

definition switchToSepolia :: "adapter \<Rightarrow> world \<Rightarrow> thrown option \<times> world" where
  "switchToSepolia a w =
     (let w1 = (if ethereum a then emit (Request (Wallet_switchEthereumChain sepolia_hex)) w else w);
          switched = (if ethereum a then wallet_switchEthereumChain a else Inl (Obj None))
      in case switched of
           Inr _ \<Rightarrow> (None, w1)
         | Inl switchError \<Rightarrow>
             (case switchError of
                Nullish \<Rightarrow> (Some (Obj None), w1)
              | Obj code \<Rightarrow>
                  if code = Some 4902 then
                    (let w2 = emit (Request (Wallet_addEthereumChain sepolia_descriptor)) w1
                     in case wallet_addEthereumChain a of
                          Inr _ \<Rightarrow> (None, w2)
                        | Inl addError \<Rightarrow> (None, emit (Toast_error ''Failed to add Sepolia network'') w2))
                  else (None, emit (Toast_error ''Failed to switch to Sepolia network'') w1)))"

text \<open>The catch block of \<^verbatim>\<open>connectWallet\<close> (lines 94 to 97).\<close>

definition connect_failed :: "world \<Rightarrow> world" where
  "connect_failed w =
     emit (Toast_error ''Failed to connect wallet. Please try again.'')
       (emit (Console_error ''Failed to connect wallet:'') w)"

text \<open>The five setters and the toast of lines 84 to 89.\<close>

definition connect_succeeded :: "handle \<Rightarrow> handle \<Rightarrow> string list \<Rightarrow> int \<Rightarrow> world \<Rightarrow> world" where
  "connect_succeeded prov sg accounts network w =
     emit (Toast_success ''Wallet connected successfully!'')
       (setIsConnected True
         (setChainId (Some (Num network))
           (setAccount (Some (accounts ! 0))
             (setSigner (Some sg)
               (setProvider (Some prov) w)))))"

text \<open>\<^verbatim>\<open>connectWallet\<close> (lines 68 to 98).\<close>

definition connectWallet :: "adapter \<Rightarrow> world \<Rightarrow> world" where
  "connectWallet a w =
     (if ethereum a then
        (let prov = newProvider a;
             w1 = emit (Request Eth_requestAccounts) w
         in case eth_requestAccounts a of
              Inl err \<Rightarrow> connect_failed w1
            | Inr accounts \<Rightarrow>
                if length accounts > 0 then
                  (let w2 = emit (Request GetSigner) w1
                   in case getSigner a of
                        Inl err \<Rightarrow> connect_failed w2
                      | Inr sg \<Rightarrow>
                          (let w3 = emit (Request GetNetwork) w2
                           in case getNetwork a of
                                Inl err \<Rightarrow> connect_failed w3
                              | Inr network \<Rightarrow>
                                  if network \<noteq> SEPOLIA_CHAIN_ID then
                                    (case switchToSepolia a (emit (Toast_error ''Please switch to Sepolia Testnet.'') w3) of
                                       (None, w4) \<Rightarrow> w4
                                     | (Some err, w4) \<Rightarrow> connect_failed w4)
                                  else connect_succeeded prov sg accounts network w3))
                else w1)
      else emit (Toast_error ''MetaMask is not installed. Please install MetaMask to continue.'') w)"

text \<open>\<^verbatim>\<open>disconnectWallet\<close> (lines 104 to 111).\<close>

definition disconnectWallet :: "world \<Rightarrow> world" where
  "disconnectWallet w =
     emit (Toast_success ''Wallet disconnected'')
       (setIsConnected False
         (setChainId None
           (setAccount None
             (setSigner None
               (setProvider None w)))))"

text \<open>\<^verbatim>\<open>handleAccountsChanged\<close> (lines 159 to 165).\<close>

definition handleAccountsChanged :: "string list \<Rightarrow> world \<Rightarrow> world" where
  "handleAccountsChanged accounts w =
     (if length accounts = 0 then disconnectWallet w
      else setAccount (Some (accounts ! 0)) w)"

text \<open>\<^verbatim>\<open>handleChainChanged\<close> (lines 167 to 175).\<close>

definition handleChainChanged :: "string \<Rightarrow> world \<Rightarrow> world" where
  "handleChainChanged chainIdHex w =
     (let newChainId = parseInt16 chainIdHex;
          w1 = setChainId (Some newChainId) w
      in if newChainId \<noteq> Num SEPOLIA_CHAIN_ID then
           disconnectWallet (emit (Toast_error ''Please switch to Sepolia Testnet.'') w1)
         else w1)"

text \<open>
  \<^verbatim>\<open>autoConnect\<close> (lines 193 to 204). \<^verbatim>\<open>connectWallet\<close> catches whatever is thrown
  inside it, so the catch block of \<^verbatim>\<open>autoConnect\<close> is reached from the account query
  only.
\<close>

definition autoConnect :: "adapter \<Rightarrow> world \<Rightarrow> world" where
  "autoConnect a w =
     (if ethereum a then
        (let w1 = emit (Request Eth_accounts) (emit (Toast_loading ''Attempting auto-connect...'') w)
         in case eth_accounts a of
              Inl err \<Rightarrow> emit (Console_error ''Auto-connect failed:'') w1
            | Inr accounts \<Rightarrow> if length accounts > 0 then connectWallet a w1 else w1)
      else w)"

subsection \<open>Reading the trace\<close>

text \<open>The error notifications (\<^verbatim>\<open>toast.error\<close>) of a trace, in order.\<close>

fun is_error_toast :: "event \<Rightarrow> bool" where
  "is_error_toast (Toast_error m) = True"
| "is_error_toast e = False"

definition error_toasts :: "event list \<Rightarrow> event list" where
  "error_toasts tr = filter is_error_toast tr"

subsection \<open>Sequences of operations\<close>

text \<open>
  The calls and wallet events that change the session, each with the wallet's answers to
  the requests it makes, and the state a sequence of them leads to.
\<close>

datatype op =
    Connect adapter
  | Disconnect
  | OnAccountsChanged "string list"
  | OnChainChanged string

fun apply_op :: "op \<Rightarrow> world \<Rightarrow> world" where
  "apply_op (Connect a) w = connectWallet a w"
| "apply_op Disconnect w = disconnectWallet w"
| "apply_op (OnAccountsChanged accounts) w = handleAccountsChanged accounts w"
| "apply_op (OnChainChanged chainIdHex) w = handleChainChanged chainIdHex w"

definition run_ops :: "op list \<Rightarrow> world \<Rightarrow> world" where
  "run_ops ops w = foldl (\<lambda>v x. apply_op x v) w ops"

text \<open>
  \<^verbatim>\<open>isConnected\<close> is the code's form of the status Connected. The first predicate is
  the equivalence between being connected and holding an account, both handles and the
  required chain id. The second is the stronger property each operation preserves: the
  handles are held exactly when connected, and a connected session has its account and
  the required chain id.
\<close>

definition session_invariant :: "session \<Rightarrow> bool" where
  "session_invariant s =
     (isConnected s =
        (account s \<noteq> None \<and> provider s \<noteq> None \<and> signer s \<noteq> None
         \<and> chainId s = Some (Num SEPOLIA_CHAIN_ID)))"

definition session_ok :: "session \<Rightarrow> bool" where
  "session_ok s =
     ((provider s \<noteq> None) = isConnected s \<and> (signer s \<noteq> None) = isConnected s
      \<and> (isConnected s \<longrightarrow> account s \<noteq> None \<and> chainId s = Some (Num SEPOLIA_CHAIN_ID)))"

subsection \<open>Suspension points\<close>

text \<open>
  \<^verbatim>\<open>connectWallet\<close> is an async function: it runs up to an \<^verbatim>\<open>await\<close>, and its
  rest runs when the awaited promise settles. Other calls and wallet events can run in
  between. A task is a suspended activation of \<^verbatim>\<open>connectWallet\<close> with the locals it
  holds: at line 72 (account request), 75 (signer), 76 (network), and, inside the
  \<^verbatim>\<open>switchToSepolia\<close> it awaits at line 80, at lines 121 (switch) and 128 (add).
  \<open>resume\<close> runs a task from its suspension point to the next one or to the end;
  it has no result when the answer is not of the kind the task waits for.
\<close>

datatype task =
    Await_requestAccounts handle
  | Await_getSigner handle "string list"
  | Await_getNetwork handle "string list" handle
  | Await_switchChain
  | Await_addChain

datatype response =
    Accounts "thrown + string list"
  | Signer "thrown + handle"
  | Network "thrown + int"
  | Switched "thrown + unit"
  | Added "thrown + unit"

fun resume :: "task \<Rightarrow> response \<Rightarrow> world \<Rightarrow> (task option \<times> world) option" where
  "resume (Await_requestAccounts prov) (Accounts r) w =
     Some (case r of
             Inl err \<Rightarrow> (None, connect_failed w)
           | Inr accounts \<Rightarrow>
               if length accounts > 0
               then (Some (Await_getSigner prov accounts), emit (Request GetSigner) w)
               else (None, w))"
| "resume (Await_getSigner prov accounts) (Signer r) w =
     Some (case r of
             Inl err \<Rightarrow> (None, connect_failed w)
           | Inr sg \<Rightarrow> (Some (Await_getNetwork prov accounts sg), emit (Request GetNetwork) w))"
| "resume (Await_getNetwork prov accounts sg) (Network r) w =
     Some (case r of
             Inl err \<Rightarrow> (None, connect_failed w)
           | Inr network \<Rightarrow>
               if network \<noteq> SEPOLIA_CHAIN_ID
               then (Some Await_switchChain,
                     emit (Request (Wallet_switchEthereumChain sepolia_hex))
                       (emit (Toast_error ''Please switch to Sepolia Testnet.'') w))
               else (None, connect_succeeded prov sg accounts network w))"
| "resume Await_switchChain (Switched r) w =
     Some (case r of
             Inr u \<Rightarrow> (None, w)
           | Inl Nullish \<Rightarrow> (None, connect_failed w)
           | Inl (Obj code) \<Rightarrow>
               if code = Some 4902
               then (Some Await_addChain, emit (Request (Wallet_addEthereumChain sepolia_descriptor)) w)
               else (None, emit (Toast_error ''Failed to switch to Sepolia network'') w))"
| "resume Await_addChain (Added r) w =
     Some (case r of
             Inr u \<Rightarrow> (None, w)
           | Inl addError \<Rightarrow> (None, emit (Toast_error ''Failed to add Sepolia network'') w))"
| "resume t r w = None"

text \<open>
  The session with the activations in flight. An action is a call, a wallet event, or the
  settling of the promise that the \<open>i\<close>-th activation in flight waits for; a settling
  that names no activation, or brings an answer of the wrong kind, changes nothing.
\<close>

record system =
  state :: world
  pending :: "task list"

definition initial_system :: system where
  "initial_system = \<lparr>state = initial_world, pending = []\<rparr>"

datatype action =
    Call_connect bool handle
  | Call_disconnect
  | Ev_accountsChanged "string list"
  | Ev_chainChanged string
  | Settle nat response

fun sys_step :: "action \<Rightarrow> system \<Rightarrow> system" where
  "sys_step (Call_connect eth prov) sys =
     (if eth then
        sys\<lparr>state := emit (Request Eth_requestAccounts) (state sys),
            pending := pending sys @ [Await_requestAccounts prov]\<rparr>
      else
        sys\<lparr>state := emit (Toast_error ''MetaMask is not installed. Please install MetaMask to continue.'') (state sys)\<rparr>)"
| "sys_step Call_disconnect sys = sys\<lparr>state := disconnectWallet (state sys)\<rparr>"
| "sys_step (Ev_accountsChanged accounts) sys = sys\<lparr>state := handleAccountsChanged accounts (state sys)\<rparr>"
| "sys_step (Ev_chainChanged chainIdHex) sys = sys\<lparr>state := handleChainChanged chainIdHex (state sys)\<rparr>"
| "sys_step (Settle i r) sys =
     (if i < length (pending sys) then
        (case resume (pending sys ! i) r (state sys) of
           None \<Rightarrow> sys
         | Some (None, w) \<Rightarrow> sys\<lparr>state := w, pending := take i (pending sys) @ drop (Suc i) (pending sys)\<rparr>
         | Some (Some t, w) \<Rightarrow> sys\<lparr>state := w, pending := (pending sys)[i := t]\<rparr>)
      else sys)"

definition run_actions :: "action list \<Rightarrow> system \<Rightarrow> system" where
  "run_actions acts sys = foldl (\<lambda>v x. sys_step x v) sys acts"

text \<open>
  One call of \<^verbatim>\<open>connectWallet\<close> followed to its end: the call, then the answers to
  its requests in the order it makes them. \<open>i\<close> is the position the new activation takes
  among those in flight, which is their number at the time of the call.
\<close>

definition connect_script :: "nat \<Rightarrow> adapter \<Rightarrow> action list" where
  "connect_script i a =
     [Call_connect (ethereum a) (newProvider a),
      Settle i (Accounts (eth_requestAccounts a)),
      Settle i (Signer (getSigner a)),
      Settle i (Network (getNetwork a)),
      Settle i (Switched (wallet_switchEthereumChain a)),
      Settle i (Added (wallet_addEthereumChain a))]"

subsection \<open>Sample wallets\<close>

text \<open>
  A wallet on Sepolia with one authorised account that accepts every request, and
  variations of it: on mainnet; rejecting the account request (EIP-1193 code 4001);
  absent; on mainnet, not knowing Sepolia and refusing to add it; failing the query for
  authorised accounts; on mainnet and refusing the switch with a code other than 4902.
\<close>

definition sepolia_wallet :: adapter where
  "sepolia_wallet =
     \<lparr>ethereum = True, newProvider = 1, eth_requestAccounts = Inr [''0xAA''],
      getSigner = Inr 2, getNetwork = Inr 11155111, wallet_switchEthereumChain = Inr (),
      wallet_addEthereumChain = Inr (), eth_accounts = Inr [''0xAA'']\<rparr>"

definition mainnet_wallet :: adapter where
  "mainnet_wallet = sepolia_wallet\<lparr>getNetwork := Inr 1\<rparr>"

definition rejecting_wallet :: adapter where
  "rejecting_wallet = sepolia_wallet\<lparr>eth_requestAccounts := Inl (Obj (Some 4001))\<rparr>"

definition no_wallet :: adapter where
  "no_wallet = sepolia_wallet\<lparr>ethereum := False\<rparr>"

definition unknown_chain_wallet :: adapter where
  "unknown_chain_wallet =
     mainnet_wallet\<lparr>wallet_switchEthereumChain := Inl (Obj (Some 4902)),
                    wallet_addEthereumChain := Inl (Obj (Some 4001))\<rparr>"

definition silent_wallet :: adapter where
  "silent_wallet = sepolia_wallet\<lparr>eth_accounts := Inl (Obj None)\<rparr>"

definition other_error_wallet :: adapter where
  "other_error_wallet = mainnet_wallet\<lparr>wallet_switchEthereumChain := Inl (Obj (Some 4001))\<rparr>"

definition connected_world :: world where
  "connected_world = connectWallet sepolia_wallet initial_world"

section \<open>Basic facts\<close>

lemmas world_defs = emit_def setProvider_def setSigner_def setAccount_def setChainId_def
  setIsConnected_def

lemma sepolia_hex_eq: "sepolia_hex = ''0xaa36a7''"
  by (simp add: sepolia_hex_def SEPOLIA_CHAIN_ID_def toString16.simps hexChar_def)

lemma session_emit [simp]: "session (emit e w) = session w"
  by (simp add: emit_def)

lemma trace_emit [simp]: "trace (emit e w) = trace w @ [e]"
  by (simp add: emit_def)

lemma trace_setChainId [simp]: "trace (setChainId v w) = trace w"
  by (simp add: setChainId_def)

lemma session_setChainId [simp]: "session (setChainId v w) = (session w)\<lparr>chainId := v\<rparr>"
  by (simp add: setChainId_def)

lemma trace_setAccount [simp]: "trace (setAccount v w) = trace w"
  by (simp add: setAccount_def)

lemma session_setAccount [simp]: "session (setAccount v w) = (session w)\<lparr>account := v\<rparr>"
  by (simp add: setAccount_def)

lemma session_connect_failed [simp]: "session (connect_failed w) = session w"
  by (simp add: connect_failed_def)

lemma trace_connect_failed [simp]:
  "trace (connect_failed w) =
     trace w @ [Console_error ''Failed to connect wallet:'', Toast_error ''Failed to connect wallet. Please try again.'']"
  by (simp add: connect_failed_def)

lemma session_connect_succeeded [simp]:
  "session (connect_succeeded prov sg accounts network w) =
     \<lparr>provider = Some prov, signer = Some sg, account = Some (accounts ! 0),
      chainId = Some (Num network), isConnected = True\<rparr>"
  by (simp add: connect_succeeded_def world_defs)

lemma trace_connect_succeeded [simp]:
  "trace (connect_succeeded prov sg accounts network w) =
     trace w @ [Toast_success ''Wallet connected successfully!'']"
  by (simp add: connect_succeeded_def world_defs)

lemma session_disconnectWallet [simp]: "session (disconnectWallet w) = initial_session"
  by (simp add: disconnectWallet_def world_defs initial_session_def)

lemma trace_disconnectWallet [simp]:
  "trace (disconnectWallet w) = trace w @ [Toast_success ''Wallet disconnected'']"
  by (simp add: disconnectWallet_def world_defs)

lemma switchToSepolia_session: "session (snd (switchToSepolia a w)) = session w"
  by (simp add: switchToSepolia_def Let_def split: sum.split thrown.split)

lemma connectWallet_session:
  "session (connectWallet a w) = session w
   \<or> (\<exists>prov sg acc. session (connectWallet a w) =
        \<lparr>provider = Some prov, signer = Some sg, account = Some acc,
         chainId = Some (Num SEPOLIA_CHAIN_ID), isConnected = True\<rparr>)"
proof -
  have sw: "\<And>v. session (case switchToSepolia a v of (None, w4) \<Rightarrow> w4 | (Some err, w4) \<Rightarrow> connect_failed w4)
      = session v"
    using switchToSepolia_session [of a]
    by (auto split: prod.split option.split) (metis snd_conv)+
  show ?thesis
    by (simp add: connectWallet_def Let_def sw split: sum.split)
qed

lemma session_ok_initial: "session_ok initial_session"
  by (simp add: session_ok_def initial_session_def)

lemma session_ok_connectWallet: "session_ok (session w) \<Longrightarrow> session_ok (session (connectWallet a w))"
  using connectWallet_session [of a w] by (auto simp: session_ok_def)

lemma session_ok_disconnectWallet: "session_ok (session (disconnectWallet w))"
  by (simp add: session_ok_initial)

lemma session_ok_handleAccountsChanged:
  "session_ok (session w) \<Longrightarrow> session_ok (session (handleAccountsChanged accounts w))"
  by (simp add: handleAccountsChanged_def session_ok_initial)
     (simp add: session_ok_def)

lemma session_ok_handleChainChanged:
  "session_ok (session w) \<Longrightarrow> session_ok (session (handleChainChanged chainIdHex w))"
  by (simp add: handleChainChanged_def Let_def session_ok_initial)
     (simp add: session_ok_def)

lemma session_ok_invariant: "session_ok s \<Longrightarrow> session_invariant s"
  by (auto simp: session_ok_def session_invariant_def)

lemma session_ok_apply_op: "session_ok (session w) \<Longrightarrow> session_ok (session (apply_op x w))"
  by (cases x)
     (simp_all add: session_ok_connectWallet session_ok_initial
        session_ok_handleAccountsChanged session_ok_handleChainChanged)

lemma session_ok_run_ops: "session_ok (session w) \<Longrightarrow> session_ok (session (run_ops ops w))"
  unfolding run_ops_def
  by (induction ops arbitrary: w) (simp_all add: session_ok_apply_op)

subsection \<open>The invariant between suspension points\<close>

lemma resume_session:
  "resume t r w = Some (t', w') \<Longrightarrow>
     session w' = session w
     \<or> (\<exists>prov sg acc. session w' =
          \<lparr>provider = Some prov, signer = Some sg, account = Some acc,
           chainId = Some (Num SEPOLIA_CHAIN_ID), isConnected = True\<rparr>)"
  by (cases "(t, r, w)" rule: resume.cases)
     (auto split: sum.splits if_splits thrown.splits)

lemma session_ok_resume:
  "resume t r w = Some (t', w') \<Longrightarrow> session_ok (session w) \<Longrightarrow> session_ok (session w')"
  using resume_session [of t r w t' w'] by (auto simp: session_ok_def)

lemma session_ok_sys_step:
  "session_ok (session (state sys)) \<Longrightarrow> session_ok (session (state (sys_step x sys)))"
proof (cases x)
  case (Settle i r)
  then show "session_ok (session (state sys)) \<Longrightarrow> ?thesis"
    by (auto split: option.splits prod.splits dest: session_ok_resume)
qed (simp_all add: session_ok_initial session_ok_handleAccountsChanged session_ok_handleChainChanged)

lemma session_ok_run_actions:
  "session_ok (session (state sys)) \<Longrightarrow> session_ok (session (state (run_actions acts sys)))"
  unfolding run_actions_def
  by (induction acts arbitrary: sys) (simp_all add: session_ok_sys_step)

subsection \<open>A call is the run of its steps\<close>

text \<open>
  Followed from the call to its end, with nothing else running in between, an activation
  does what \<^verbatim>\<open>connectWallet\<close> does as a whole, whatever else is in flight.
\<close>

lemma settle_last:
  "sys_step (Settle (length ts) r) \<lparr>state = w, pending = ts @ [t]\<rparr> =
     (case resume t r w of
        None \<Rightarrow> \<lparr>state = w, pending = ts @ [t]\<rparr>
      | Some (None, w') \<Rightarrow> \<lparr>state = w', pending = ts\<rparr>
      | Some (Some t', w') \<Rightarrow> \<lparr>state = w', pending = ts @ [t']\<rparr>)"
  by (simp split: option.split)

lemma settle_beyond:
  "sys_step (Settle (length ts) r) \<lparr>state = w, pending = ts\<rparr> = \<lparr>state = w, pending = ts\<rparr>"
  by simp

lemma connect_script_connectWallet:
  "run_actions (connect_script (length ts) a) \<lparr>state = w, pending = ts\<rparr>
     = \<lparr>state = connectWallet a w, pending = ts\<rparr>"
proof (cases "ethereum a")
  case False
  then show ?thesis
    by (simp add: run_actions_def connect_script_def connectWallet_def del: sys_step.simps(5))
      (simp add: settle_beyond del: sys_step.simps)
next
  case eth: True
  note defs = run_actions_def connect_script_def connectWallet_def switchToSepolia_def Let_def
    settle_last settle_beyond
  note [simp del] = sys_step.simps(5)
  show ?thesis
  proof (cases "eth_requestAccounts a")
    case (Inl err)
    with eth show ?thesis by (simp add: defs)
  next
    case acc: (Inr accounts)
    show ?thesis
    proof (cases "accounts = []")
      case True
      with eth acc show ?thesis by (simp add: defs)
    next
      case ne: False
      show ?thesis
      proof (cases "getSigner a")
        case (Inl err)
        with eth acc ne show ?thesis by (simp add: defs)
      next
        case sg: (Inr s)
        show ?thesis
        proof (cases "getNetwork a")
          case (Inl err)
          with eth acc ne sg show ?thesis by (simp add: defs)
        next
          case net: (Inr network)
          show ?thesis
          proof (cases "network = SEPOLIA_CHAIN_ID")
            case True
            with eth acc ne sg net show ?thesis by (simp add: defs)
          next
            case wrong: False
            show ?thesis
            proof (cases "wallet_switchEthereumChain a")
              case (Inr u)
              with eth acc ne sg net wrong show ?thesis by (simp add: defs)
            next
              case sw: (Inl switchError)
              show ?thesis
              proof (cases switchError)
                case Nullish
                with eth acc ne sg net wrong sw show ?thesis by (simp add: defs)
              next
                case (Obj code)
                with eth acc ne sg net wrong sw show ?thesis
                  by (cases "wallet_addEthereumChain a") (simp_all add: defs)
              qed
            qed
          qed
        qed
      qed
    qed
  qed
qed

subsection \<open>Facts about the samples\<close>

lemmas sample_defs = sepolia_wallet_def mainnet_wallet_def rejecting_wallet_def no_wallet_def
  unknown_chain_wallet_def silent_wallet_def other_error_wallet_def

lemma connected_world_eq:
  "connected_world =
     \<lparr>session = \<lparr>provider = Some 1, signer = Some 2, account = Some ''0xAA'',
                  chainId = Some (Num 11155111), isConnected = True\<rparr>,
      trace = [Request Eth_requestAccounts, Request GetSigner, Request GetNetwork,
               Toast_success ''Wallet connected successfully!'']\<rparr>"
  by (simp add: connected_world_def connectWallet_def sepolia_wallet_def initial_world_def
      initial_session_def SEPOLIA_CHAIN_ID_def connect_succeeded_def world_defs)

lemma world_eqI: "session v = session w \<Longrightarrow> trace v = trace w \<Longrightarrow> v = (w::world)"
  by simp

lemma parseInt16_sepolia: "parseInt16 ''0xaa36a7'' = Num SEPOLIA_CHAIN_ID"
  by (simp add: parseInt16_def isStrWhiteSpaceChar_def hexDigit_def mathInt16_def
      SEPOLIA_CHAIN_ID_def)

lemma parseInt16_mainnet: "parseInt16 ''0x1'' = Num 1"
  by (simp add: parseInt16_def isStrWhiteSpaceChar_def hexDigit_def mathInt16_def)

lemma parseInt16_not_a_number: "parseInt16 ''0x'' = NaN"
  by (simp add: parseInt16_def isStrWhiteSpaceChar_def hexDigit_def)

section \<open>The claims\<close>

subsection \<open>C1: connected if and only if populated\<close>

text \<open>
  Claim C1. In every session state reachable from the initial, disconnected state by a
  sequence of \<^verbatim>\<open>connectWallet\<close>, \<^verbatim>\<open>disconnectWallet\<close>, accountsChanged and chainChanged
  operations, whatever the wallet answers, the session is connected if and only if the
  account, the provider handle and the signer handle are present and the chain id is
  11155111.
\<close>

theorem connected_iff_populated:
  "session_invariant (session (run_ops ops initial_world))"
  by (rule session_ok_invariant, rule session_ok_run_ops)
     (simp add: initial_world_def session_ok_initial)

theorem connected_iff_populated_witness:
  "isConnected (session (run_ops [Connect sepolia_wallet] initial_world))
   \<and> session_invariant (session (run_ops [Connect sepolia_wallet] initial_world))
   \<and> \<not> isConnected (session (run_ops [Connect sepolia_wallet, OnChainChanged ''0x1''] initial_world))
   \<and> session_invariant (session (run_ops [Connect sepolia_wallet, OnChainChanged ''0x1''] initial_world))"
proof -
  have "isConnected (session (run_ops [Connect sepolia_wallet] initial_world))"
    using connected_world_eq by (simp add: run_ops_def connected_world_def)
  moreover have "\<not> isConnected (session (run_ops [Connect sepolia_wallet, OnChainChanged ''0x1''] initial_world))"
    by (simp add: run_ops_def handleChainChanged_def Let_def parseInt16_mainnet
        SEPOLIA_CHAIN_ID_def initial_session_def)
  ultimately show ?thesis
    using connected_iff_populated [of "[Connect sepolia_wallet]"]
      connected_iff_populated [of "[Connect sepolia_wallet, OnChainChanged ''0x1'']"]
    by simp
qed

text \<open>
  The same equivalence holds when calls and events run between the suspension points of
  connect attempts in flight: \<^verbatim>\<open>connectWallet\<close> writes the five fields in one
  synchronous block (lines 84 to 88), after its last \<^verbatim>\<open>await\<close>.
\<close>

lemma interleaved_session_invariant:
  "session_invariant (session (state (run_actions acts initial_system)))"
  by (rule session_ok_invariant, rule session_ok_run_actions)
     (simp add: initial_system_def initial_world_def session_ok_initial)

subsection \<open>C2: connecting on the required network\<close>

text \<open>
  Claim C2. When the wallet exists, grants a non-empty account list and reports network
  11155111, \<^verbatim>\<open>connectWallet\<close> ends connected: the account is the first granted one, the
  chain id is 11155111, both handles are set, and the only notification is one success
  toast. The network is asked for after the signer (lines 75 and 76), so a call in which
  the network is reported is one in which the signer was handed out.
\<close>

theorem connect_on_required_network:
  assumes "ethereum a"
    and "eth_requestAccounts a = Inr (first # others)"
    and "getSigner a = Inr sg"
    and "getNetwork a = Inr 11155111"
  shows "connectWallet a w =
     \<lparr>session = \<lparr>provider = Some (newProvider a), signer = Some sg, account = Some first,
                  chainId = Some (Num 11155111), isConnected = True\<rparr>,
      trace = trace w @ [Request Eth_requestAccounts, Request GetSigner, Request GetNetwork,
                         Toast_success ''Wallet connected successfully!'']\<rparr>"
  using assms
  by (intro world_eqI) (simp_all add: connectWallet_def SEPOLIA_CHAIN_ID_def)

theorem connect_on_required_network_witness:
  "ethereum sepolia_wallet
   \<and> eth_requestAccounts sepolia_wallet = Inr [''0xAA'']
   \<and> getSigner sepolia_wallet = Inr 2
   \<and> getNetwork sepolia_wallet = Inr 11155111
   \<and> connectWallet sepolia_wallet initial_world =
     \<lparr>session = \<lparr>provider = Some 1, signer = Some 2, account = Some ''0xAA'',
                  chainId = Some (Num 11155111), isConnected = True\<rparr>,
      trace = [Request Eth_requestAccounts, Request GetSigner, Request GetNetwork,
               Toast_success ''Wallet connected successfully!'']\<rparr>"
  using connect_on_required_network [of sepolia_wallet "''0xAA''" "[]" 2 initial_world]
  by (simp add: sepolia_wallet_def initial_world_def)

text \<open>When the signer is refused, the network is never asked for and the call fails.\<close>

lemma signer_failure_asks_no_network:
  assumes "ethereum a" and "eth_requestAccounts a = Inr (first # others)" and "getSigner a = Inl err"
  shows "connectWallet a w =
     connect_failed (emit (Request GetSigner) (emit (Request Eth_requestAccounts) w))"
  using assms by (simp add: connectWallet_def)

subsection \<open>C3: connecting on another network\<close>

lemma switchToSepolia_trace:
  "ethereum a \<Longrightarrow>
   prefix (trace w @ [Request (Wallet_switchEthereumChain ''0xaa36a7'')])
     (trace (snd (switchToSepolia a w)))"
  by (simp add: switchToSepolia_def sepolia_hex_eq Let_def split: sum.split thrown.split)

lemma connect_after_switch_trace:
  "prefix xs (trace (snd (switchToSepolia a v))) \<Longrightarrow>
   prefix xs (trace (case switchToSepolia a v of (None, w4) \<Rightarrow> w4 | (Some err, w4) \<Rightarrow> connect_failed w4))"
  by (cases "switchToSepolia a v") (auto split: option.split simp: prefix_def)

lemma connect_after_switch_session:
  "session (case switchToSepolia a v of (None, w4) \<Rightarrow> w4 | (Some err, w4) \<Rightarrow> connect_failed w4)
     = session v"
  using switchToSepolia_session [of a v]
  by (cases "switchToSepolia a v") (auto split: option.split)

text \<open>
  Claim C3. When the wallet grants a non-empty account list and reports a network other
  than 11155111, \<^verbatim>\<open>connectWallet\<close> emits the warning, issues the request to switch to
  Sepolia, and leaves every session field as it was: a disconnected session stays
  disconnected, with nothing populated. What follows the switch request in the trace
  depends on how the switch goes.
\<close>

theorem connect_on_other_network:
  assumes "ethereum a"
    and "eth_requestAccounts a = Inr (first # others)"
    and "getSigner a = Inr sg"
    and "getNetwork a = Inr network"
    and "network \<noteq> 11155111"
  shows "session (connectWallet a w) = session w
     \<and> prefix (trace w @ [Request Eth_requestAccounts, Request GetSigner, Request GetNetwork,
                          Toast_error ''Please switch to Sepolia Testnet.'',
                          Request (Wallet_switchEthereumChain ''0xaa36a7'')])
          (trace (connectWallet a w))"
proof -
  let ?v = "emit (Toast_error ''Please switch to Sepolia Testnet.'')
              (emit (Request GetNetwork) (emit (Request GetSigner) (emit (Request Eth_requestAccounts) w)))"
  have cw: "connectWallet a w =
      (case switchToSepolia a ?v of (None, w4) \<Rightarrow> w4 | (Some err, w4) \<Rightarrow> connect_failed w4)"
    using assms by (simp add: connectWallet_def SEPOLIA_CHAIN_ID_def)
  have "prefix (trace ?v @ [Request (Wallet_switchEthereumChain ''0xaa36a7'')])
          (trace (snd (switchToSepolia a ?v)))"
    using assms(1) by (rule switchToSepolia_trace)
  then have "prefix (trace ?v @ [Request (Wallet_switchEthereumChain ''0xaa36a7'')])
          (trace (connectWallet a w))"
    unfolding cw by (rule connect_after_switch_trace)
  moreover have "session (connectWallet a w) = session w"
    unfolding cw by (simp add: connect_after_switch_session)
  ultimately show ?thesis by simp
qed

theorem connect_on_other_network_witness:
  "ethereum mainnet_wallet
   \<and> eth_requestAccounts mainnet_wallet = Inr [''0xAA'']
   \<and> getSigner mainnet_wallet = Inr 2
   \<and> getNetwork mainnet_wallet = Inr 1
   \<and> (1::int) \<noteq> 11155111
   \<and> session (connectWallet mainnet_wallet initial_world) = initial_session
   \<and> prefix [Request Eth_requestAccounts, Request GetSigner, Request GetNetwork,
             Toast_error ''Please switch to Sepolia Testnet.'',
             Request (Wallet_switchEthereumChain ''0xaa36a7'')]
        (trace (connectWallet mainnet_wallet initial_world))"
  using connect_on_other_network [of mainnet_wallet "''0xAA''" "[]" 2 1 initial_world]
  by (simp add: sample_defs initial_world_def)

subsection \<open>C4: a second connect while one is in flight\<close>

text \<open>
  Claim C4, as amended. The code has no status Connecting and no re-entrancy guard. A
  \<^verbatim>\<open>connectWallet\<close> call made while another attempt is in flight, with the wallet
  present, is not a no-op: it issues its own account request at once and becomes one more
  attempt in flight, emitting no notification and changing no session field up to that
  first suspension; followed to its end, it makes the requests, emits the notifications
  and writes the session as any \<^verbatim>\<open>connectWallet\<close> call does.
\<close>

theorem connect_while_connecting:
  assumes "pending sys \<noteq> []" and "ethereum a"
  shows "session (state (sys_step (Call_connect (ethereum a) (newProvider a)) sys)) = session (state sys)
     \<and> trace (state (sys_step (Call_connect (ethereum a) (newProvider a)) sys))
         = trace (state sys) @ [Request Eth_requestAccounts]
     \<and> pending (sys_step (Call_connect (ethereum a) (newProvider a)) sys)
         = pending sys @ [Await_requestAccounts (newProvider a)]
     \<and> run_actions (connect_script (length (pending sys)) a) sys
         = sys\<lparr>state := connectWallet a (state sys)\<rparr>"
proof -
  have "run_actions (connect_script (length (pending sys)) a) sys
      = sys\<lparr>state := connectWallet a (state sys)\<rparr>"
    by (cases sys) (simp add: connect_script_connectWallet)
  with assms(2) show ?thesis by simp
qed

text \<open>
  The claim as written fails: after one call an attempt is in flight, and a second call
  sends a second account request and leaves two attempts in flight.
\<close>

theorem connect_while_connecting_counterexample:
  "pending (sys_step (Call_connect True 1) initial_system) = [Await_requestAccounts 1]
   \<and> trace (state (sys_step (Call_connect True 2) (sys_step (Call_connect True 1) initial_system)))
       = trace (state (sys_step (Call_connect True 1) initial_system)) @ [Request Eth_requestAccounts]
   \<and> pending (sys_step (Call_connect True 2) (sys_step (Call_connect True 1) initial_system))
       = [Await_requestAccounts 1, Await_requestAccounts 2]"
  by (simp add: initial_system_def)

theorem connect_while_connecting_witness:
  "pending (sys_step (Call_connect True 7) initial_system) \<noteq> []
   \<and> ethereum sepolia_wallet
   \<and> pending (sys_step (Call_connect True 1) (sys_step (Call_connect True 7) initial_system))
       = [Await_requestAccounts 7, Await_requestAccounts 1]
   \<and> run_actions (connect_script 1 sepolia_wallet) (sys_step (Call_connect True 7) initial_system) =
       \<lparr>state =
          \<lparr>session = \<lparr>provider = Some 1, signer = Some 2, account = Some ''0xAA'',
                       chainId = Some (Num 11155111), isConnected = True\<rparr>,
           trace = [Request Eth_requestAccounts, Request Eth_requestAccounts,
                    Request GetSigner, Request GetNetwork,
                    Toast_success ''Wallet connected successfully!'']\<rparr>,
        pending = [Await_requestAccounts 7]\<rparr>"
  using connect_while_connecting [of "sys_step (Call_connect True 7) initial_system" sepolia_wallet]
  by (simp add: initial_system_def initial_world_def initial_session_def sepolia_wallet_def
      connectWallet_def SEPOLIA_CHAIN_ID_def connect_succeeded_def world_defs)

text \<open>
  Both attempts run to their end, each with its own requests and its own success toast;
  the session holds what the attempt that finished last wrote.
\<close>

lemma two_attempts_both_complete:
  "run_actions
     [Call_connect True 1, Call_connect True 2,
      Settle 0 (Accounts (Inr [''0xAA''])), Settle 1 (Accounts (Inr [''0xBB''])),
      Settle 0 (Signer (Inr 3)), Settle 1 (Signer (Inr 4)),
      Settle 0 (Network (Inr 11155111)), Settle 0 (Network (Inr 11155111))]
     initial_system =
   \<lparr>state =
      \<lparr>session = \<lparr>provider = Some 2, signer = Some 4, account = Some ''0xBB'',
                   chainId = Some (Num 11155111), isConnected = True\<rparr>,
       trace = [Request Eth_requestAccounts, Request Eth_requestAccounts,
                Request GetSigner, Request GetSigner, Request GetNetwork, Request GetNetwork,
                Toast_success ''Wallet connected successfully!'',
                Toast_success ''Wallet connected successfully!'']\<rparr>,
    pending = []\<rparr>"
  by (simp add: run_actions_def initial_system_def initial_world_def initial_session_def
      SEPOLIA_CHAIN_ID_def connect_succeeded_def world_defs)

subsection \<open>C5: the wallet moves to another network\<close>

text \<open>
  Claim C5. For every chainChanged event whose id, parsed as hexadecimal, is not
  11155111 (also when it is not a number), whatever the session was, connected included,
  \<^verbatim>\<open>handleChainChanged\<close> emits the warning and resets the session: account, chain id
  and both handles are cleared and \<^verbatim>\<open>isConnected\<close> is false. The reset is
  \<^verbatim>\<open>disconnectWallet\<close>, whose toast follows the warning.
\<close>

theorem chain_changed_to_other_network:
  assumes "parseInt16 x \<noteq> Num 11155111"
  shows "handleChainChanged x w =
     \<lparr>session = \<lparr>provider = None, signer = None, account = None, chainId = None,
                  isConnected = False\<rparr>,
      trace = trace w @ [Toast_error ''Please switch to Sepolia Testnet.'',
                         Toast_success ''Wallet disconnected'']\<rparr>"
  using assms
  by (intro world_eqI)
     (simp_all add: handleChainChanged_def Let_def SEPOLIA_CHAIN_ID_def initial_session_def)

theorem chain_changed_to_other_network_witness:
  "isConnected (session connected_world)
   \<and> parseInt16 ''0x1'' \<noteq> Num 11155111
   \<and> handleChainChanged ''0x1'' connected_world =
     \<lparr>session = \<lparr>provider = None, signer = None, account = None, chainId = None,
                  isConnected = False\<rparr>,
      trace = [Request Eth_requestAccounts, Request GetSigner, Request GetNetwork,
               Toast_success ''Wallet connected successfully!'',
               Toast_error ''Please switch to Sepolia Testnet.'',
               Toast_success ''Wallet disconnected'']\<rparr>"
  using chain_changed_to_other_network [of "''0x1''" connected_world]
  by (simp add: parseInt16_mainnet connected_world_eq)

subsection \<open>C6: the wallet does not know the chain\<close>

text \<open>
  Claim C6. In \<^verbatim>\<open>switchToSepolia\<close>, when the switch request fails with code 4902, the
  request to add the chain follows it, carrying the chain id, the display name, the
  native currency, the RPC endpoint and the explorer URL; an error toast comes after that
  request, and only when the request fails. When the switch request fails with any other
  code, the generic error toast follows it and no request to add the chain is made.
\<close>

theorem switch_unrecognized_chain_fallback:
  assumes "ethereum a"
  shows "(wallet_switchEthereumChain a = Inl (Obj (Some 4902)) \<longrightarrow>
            trace (snd (switchToSepolia a w)) =
              trace w @
              [Request (Wallet_switchEthereumChain ''0xaa36a7''),
               Request (Wallet_addEthereumChain
                 \<lparr>d_chainId = ''0xaa36a7'', d_chainName = ''Sepolia Test Network'',
                  d_nativeCurrency = \<lparr>cur_name = ''Sepolia Ether'', cur_symbol = ''ETH'', cur_decimals = 18\<rparr>,
                  d_rpcUrls = [''https://eth-sepolia.g.alchemy.com/v2/d8cu_4ZQnwo5G_j-l7xXLA0IgBwzrhp9''],
                  d_blockExplorerUrls = [''https://sepolia.etherscan.io/'']\<rparr>)] @
              (case wallet_addEthereumChain a of
                 Inr u \<Rightarrow> []
               | Inl addError \<Rightarrow> [Toast_error ''Failed to add Sepolia network'']))
     \<and> (\<forall>code. wallet_switchEthereumChain a = Inl (Obj code) \<and> code \<noteq> Some 4902 \<longrightarrow>
            trace (snd (switchToSepolia a w)) =
              trace w @
              [Request (Wallet_switchEthereumChain ''0xaa36a7''),
               Toast_error ''Failed to switch to Sepolia network''])"
  using assms
  by (auto simp: switchToSepolia_def sepolia_hex_eq sepolia_descriptor_def SEPOLIA_RPC_URL_def
      split: sum.split)

theorem switch_unrecognized_chain_fallback_witness:
  "ethereum unknown_chain_wallet
   \<and> wallet_switchEthereumChain unknown_chain_wallet = Inl (Obj (Some 4902))
   \<and> trace (snd (switchToSepolia unknown_chain_wallet initial_world)) =
       [Request (Wallet_switchEthereumChain ''0xaa36a7''),
        Request (Wallet_addEthereumChain
          \<lparr>d_chainId = ''0xaa36a7'', d_chainName = ''Sepolia Test Network'',
           d_nativeCurrency = \<lparr>cur_name = ''Sepolia Ether'', cur_symbol = ''ETH'', cur_decimals = 18\<rparr>,
           d_rpcUrls = [''https://eth-sepolia.g.alchemy.com/v2/d8cu_4ZQnwo5G_j-l7xXLA0IgBwzrhp9''],
           d_blockExplorerUrls = [''https://sepolia.etherscan.io/'']\<rparr>),
        Toast_error ''Failed to add Sepolia network'']
   \<and> ethereum other_error_wallet
   \<and> wallet_switchEthereumChain other_error_wallet = Inl (Obj (Some 4001))
   \<and> Some (4001::int) \<noteq> Some 4902
   \<and> trace (snd (switchToSepolia other_error_wallet initial_world)) =
       [Request (Wallet_switchEthereumChain ''0xaa36a7''),
        Toast_error ''Failed to switch to Sepolia network'']"
  using switch_unrecognized_chain_fallback [of unknown_chain_wallet initial_world]
    switch_unrecognized_chain_fallback [of other_error_wallet initial_world]
  by (simp add: sample_defs initial_world_def)

subsection \<open>C7: what auto-connect shows the user\<close>

text \<open>
  Claim C7, as amended. An auto-connect run without a wallet does nothing. With a wallet,
  a failing account query is logged to the console and swallowed, and an empty account
  list ends the run: neither emits an error notification nor touches the session. When
  the query returns authorised accounts the run is a \<^verbatim>\<open>connectWallet\<close> call, after
  the loading toast and the query, and emits the notifications that call emits.
\<close>

theorem auto_connect_notifications:
  "(\<not> ethereum a \<longrightarrow> autoConnect a w = w)
   \<and> (ethereum a \<longrightarrow>
        (\<forall>err. eth_accounts a = Inl err \<longrightarrow>
           session (autoConnect a w) = session w
           \<and> trace (autoConnect a w) =
               trace w @ [Toast_loading ''Attempting auto-connect...'', Request Eth_accounts,
                          Console_error ''Auto-connect failed:''])
        \<and> (eth_accounts a = Inr [] \<longrightarrow>
           session (autoConnect a w) = session w
           \<and> trace (autoConnect a w) =
               trace w @ [Toast_loading ''Attempting auto-connect...'', Request Eth_accounts])
        \<and> (\<forall>first others. eth_accounts a = Inr (first # others) \<longrightarrow>
           autoConnect a w =
             connectWallet a
               (w\<lparr>trace := trace w @ [Toast_loading ''Attempting auto-connect...'', Request Eth_accounts]\<rparr>)))"
  by (simp add: autoConnect_def emit_def)

text \<open>
  The claim as written fails: an auto-connect run on a wallet that is on mainnet shows
  the warning as an error toast, and one whose account request is rejected shows the
  connect failure.
\<close>

theorem auto_connect_error_toast_counterexample:
  "error_toasts (trace (autoConnect mainnet_wallet initial_world))
     = [Toast_error ''Please switch to Sepolia Testnet.'']
   \<and> error_toasts (trace (autoConnect rejecting_wallet initial_world))
     = [Toast_error ''Failed to connect wallet. Please try again.'']"
  by (simp add: autoConnect_def connectWallet_def switchToSepolia_def sample_defs
      initial_world_def error_toasts_def SEPOLIA_CHAIN_ID_def)

theorem auto_connect_notifications_witness:
  "ethereum silent_wallet
   \<and> eth_accounts silent_wallet = Inl (Obj None)
   \<and> session (autoConnect silent_wallet initial_world) = initial_session
   \<and> trace (autoConnect silent_wallet initial_world) =
        [Toast_loading ''Attempting auto-connect...'', Request Eth_accounts,
         Console_error ''Auto-connect failed:'']
   \<and> \<not> ethereum no_wallet
   \<and> autoConnect no_wallet initial_world = initial_world
   \<and> eth_accounts mainnet_wallet = Inr [''0xAA'']
   \<and> autoConnect mainnet_wallet initial_world =
       connectWallet mainnet_wallet
         (initial_world\<lparr>trace := [Toast_loading ''Attempting auto-connect...'', Request Eth_accounts]\<rparr>)"
  using auto_connect_notifications [of silent_wallet initial_world]
    auto_connect_notifications [of no_wallet initial_world]
    auto_connect_notifications [of mainnet_wallet initial_world]
  by (simp add: sample_defs initial_world_def)

subsection \<open>C8: the wallet selects another account\<close>

text \<open>
  Claim C8. For every accountsChanged event with a non-empty list,
  \<^verbatim>\<open>handleAccountsChanged\<close> sets the account to the first entry and leaves
  \<^verbatim>\<open>isConnected\<close>, the chain id and both handles as they were; it emits nothing.
\<close>

theorem accounts_changed_frame:
  "account (session (handleAccountsChanged (first # others) w)) = Some first
   \<and> isConnected (session (handleAccountsChanged (first # others) w)) = isConnected (session w)
   \<and> chainId (session (handleAccountsChanged (first # others) w)) = chainId (session w)
   \<and> provider (session (handleAccountsChanged (first # others) w)) = provider (session w)
   \<and> signer (session (handleAccountsChanged (first # others) w)) = signer (session w)
   \<and> trace (handleAccountsChanged (first # others) w) = trace w"
  by (simp add: handleAccountsChanged_def)

theorem accounts_changed_frame_witness:
  "handleAccountsChanged [''0xBB'', ''0xAA''] connected_world =
     \<lparr>session = \<lparr>provider = Some 1, signer = Some 2, account = Some ''0xBB'',
                  chainId = Some (Num 11155111), isConnected = True\<rparr>,
      trace = [Request Eth_requestAccounts, Request GetSigner, Request GetNetwork,
               Toast_success ''Wallet connected successfully!'']\<rparr>"
  using accounts_changed_frame [of "''0xBB''" "[''0xAA'']" connected_world]
  by (intro world_eqI) (simp_all add: connected_world_eq)

subsection \<open>C9: connecting without a wallet\<close>

text \<open>
  Claim C9. When \<^verbatim>\<open>window.ethereum\<close> is undefined, \<^verbatim>\<open>connectWallet\<close> leaves every
  session field as it was, so a disconnected session stays disconnected, and emits one
  error notification and nothing else.
\<close>

theorem connect_without_provider:
  assumes "\<not> ethereum a"
  shows "session (connectWallet a w) = session w
     \<and> trace (connectWallet a w) =
         trace w @ [Toast_error ''MetaMask is not installed. Please install MetaMask to continue.'']"
  using assms by (simp add: connectWallet_def)

theorem connect_without_provider_witness:
  "\<not> ethereum no_wallet
   \<and> session (connectWallet no_wallet initial_world) = initial_session
   \<and> trace (connectWallet no_wallet initial_world) =
       [Toast_error ''MetaMask is not installed. Please install MetaMask to continue.'']"
  using connect_without_provider [of no_wallet initial_world]
  by (simp add: sample_defs initial_world_def)

subsection \<open>C10: switching the network leaves the session alone\<close>

text \<open>
  Claim C10. Whatever the wallet answers to the switch request and to the request to add
  the chain, \<^verbatim>\<open>switchToSepolia\<close> leaves provider, signer, account, chain id and
  \<^verbatim>\<open>isConnected\<close> as they were; the chain id is not updated when the switch succeeds.
\<close>

theorem switch_leaves_session:
  "provider (session (snd (switchToSepolia a w))) = provider (session w)
   \<and> signer (session (snd (switchToSepolia a w))) = signer (session w)
   \<and> account (session (snd (switchToSepolia a w))) = account (session w)
   \<and> chainId (session (snd (switchToSepolia a w))) = chainId (session w)
   \<and> isConnected (session (snd (switchToSepolia a w))) = isConnected (session w)"
  by (simp add: switchToSepolia_session)

theorem switch_leaves_session_witness:
  "wallet_switchEthereumChain sepolia_wallet = Inr ()
   \<and> chainId (session (snd (switchToSepolia sepolia_wallet initial_world))) = None
   \<and> isConnected (session (snd (switchToSepolia sepolia_wallet initial_world))) = False
   \<and> provider (session (snd (switchToSepolia sepolia_wallet initial_world))) = None
   \<and> signer (session (snd (switchToSepolia sepolia_wallet initial_world))) = None
   \<and> account (session (snd (switchToSepolia sepolia_wallet initial_world))) = None"
  using switch_leaves_session [of sepolia_wallet initial_world]
  by (simp add: sample_defs initial_world_def initial_session_def)

end
